theory Spec2Isabelle
  imports Main "HOL-Library.Sublist"
begin

section \<open>JavaScript values as they reach the table view\<close>

text \<open>
  Every payload the page receives is parsed JSON, so a value is \<open>undefined\<close> (a missing
  property), \<open>null\<close>, a boolean, a number, a string, an array or an object.  Numbers are the
  integers (chip counts, ranks, indices); fractional numbers are outside this model.  A
  string is the list of its characters (identifiers, card names and messages in ASCII).
  An object is its list of entries; the property \<open>k\<close> of \<open>JObj kvs\<close> is the first entry
  with key \<open>k\<close>, later entries with the same key are shadowed.  Only own properties of
  parsed data are modelled: members inherited from a built-in prototype (a player
  identifier spelled \<open>constructor\<close>, say) are not.
\<close>

datatype jsval =
    JUndef
  | JNull
  | JBool bool
  | JNum int
  | JStr string
  | JArr "jsval list"
  | JObj "(string \<times> jsval) list"

text \<open>The one exception the handlers can raise: a property read or a call on a value
  that has no such property or method.\<close>

datatype js_error = TypeError

fun nullish :: "jsval \<Rightarrow> bool" where
  "nullish JUndef = True"
| "nullish JNull = True"
| "nullish _ = False"

text \<open>Truthiness, as \<open>if (v)\<close>, \<open>!v\<close>, \<open>a && b\<close> and \<open>a || b\<close> test it.\<close>

fun truthy :: "jsval \<Rightarrow> bool" where
  "truthy JUndef = False"
| "truthy JNull = False"
| "truthy (JBool b) = b"
| "truthy (JNum n) = (n \<noteq> 0)"
| "truthy (JStr s) = (s \<noteq> [])"
| "truthy (JArr _) = True"
| "truthy (JObj _) = True"

text \<open>\<open>a || b\<close> on values.\<close>

definition js_or :: "jsval \<Rightarrow> jsval \<Rightarrow> jsval" where
  "js_or a b = (if truthy a then a else b)"

text \<open>
  \<open>a === b\<close>.  Primitives compare by value.  Arrays and objects compare by reference, and
  wherever the page uses \<open>===\<close> one operand is a string of the page itself or the two
  operands were parsed from different deliveries, so two arrays or two objects are never
  the same reference.
\<close>

fun strict_eq :: "jsval \<Rightarrow> jsval \<Rightarrow> bool" where
  "strict_eq JUndef JUndef = True"
| "strict_eq JNull JNull = True"
| "strict_eq (JBool a) (JBool b) = (a = b)"
| "strict_eq (JNum a) (JNum b) = (a = b)"
| "strict_eq (JStr a) (JStr b) = (a = b)"
| "strict_eq _ _ = False"

subsection \<open>Conversion to a string (template literals and property keys)\<close>

definition digit_char :: "nat \<Rightarrow> char" where
  "digit_char d = ''0123456789'' ! d"

fun show_nat :: "nat \<Rightarrow> string" where
  "show_nat n = (if n < 10 then [digit_char n] else show_nat (n div 10) @ [digit_char (n mod 10)])"

declare show_nat.simps [simp del]

definition show_int :: "int \<Rightarrow> string" where
  "show_int i = (if i < 0 then CHR ''-'' # show_nat (nat (- i)) else show_nat (nat i))"

fun join_comma :: "string list \<Rightarrow> string" where
  "join_comma [] = []"
| "join_comma [s] = s"
| "join_comma (s # t # ss) = s @ '','' @ join_comma (t # ss)"

text \<open>
  \<open>String(v)\<close>, which \<open>`${v}`\<close> and \<open>o[v]\<close> apply to \<open>v\<close>.  An array joins its
  elements with commas, \<open>null\<close> and \<open>undefined\<close> elements as the empty string.  The
  function is exact on strings, booleans, \<open>null\<close>, \<open>undefined\<close> and the integers the
  engine holds exactly (it prints those in decimal).  It is not what the engine does on
  a larger number, printed in exponent form, nor on an object that has an entry
  \<open>toString\<close> of its own, where the conversion throws: a statement that depends on the
  conversion of an identifier takes the identifier to be a string (\<open>plain_id\<close> below).
\<close>

fun js_string :: "jsval \<Rightarrow> string" where
  "js_string JUndef = ''undefined''"
| "js_string JNull = ''null''"
| "js_string (JBool b) = (if b then ''true'' else ''false'')"
| "js_string (JNum n) = show_int n"
| "js_string (JStr s) = s"
| "js_string (JArr xs) = join_comma (map (\<lambda>x. if nullish x then [] else js_string x) xs)"
| "js_string (JObj _) = ''[object Object]''"

subsection \<open>Property reads\<close>

text \<open>The index a property key denotes in an array or string of length \<open>n\<close>, if any.\<close>

definition array_index :: "string \<Rightarrow> nat \<Rightarrow> nat option" where
  "array_index k n = List.find (\<lambda>i. show_nat i = k) [0..<n]"

text \<open>
  The value of \<open>v[k]\<close> when \<open>v\<close> is neither \<open>null\<close> nor \<open>undefined\<close>, as far as the own
  properties of \<open>v\<close> go.  The keys the page writes out (\<open>state\<close>, \<open>name\<close>, \<open>player_id\<close>
  and so on) name no inherited member, so the read is exact for them.  A key computed
  from the payload can name a member inherited from the prototype (\<open>constructor\<close>,
  \<open>toString\<close>), which the engine finds and this function does not: a statement that
  depends on such a read takes the key to name no inherited member of an object
  (\<open>plain_id\<close> below).
\<close>

fun get_prop :: "jsval \<Rightarrow> string \<Rightarrow> jsval" where
  "get_prop (JObj kvs) k = (case map_of kvs k of Some v \<Rightarrow> v | None \<Rightarrow> JUndef)"
| "get_prop (JArr xs) k =
     (if k = ''length'' then JNum (int (length xs))
      else case array_index k (length xs) of Some i \<Rightarrow> xs ! i | None \<Rightarrow> JUndef)"
| "get_prop (JStr s) k =
     (if k = ''length'' then JNum (int (length s))
      else case array_index k (length s) of Some i \<Rightarrow> JStr [s ! i] | None \<Rightarrow> JUndef)"
| "get_prop _ k = JUndef"

text \<open>\<open>v.k\<close> and \<open>v[k]\<close>: a TypeError on \<open>null\<close> and \<open>undefined\<close>.\<close>

definition js_get :: "jsval \<Rightarrow> string \<Rightarrow> js_error + jsval" where
  "js_get v k = (if nullish v then Inl TypeError else Inr (get_prop v k))"

text \<open>\<open>v?.k\<close>: \<open>undefined\<close> on \<open>null\<close> and \<open>undefined\<close>, never an error.\<close>

definition opt_get :: "jsval \<Rightarrow> string \<Rightarrow> jsval" where
  "opt_get v k = (if nullish v then JUndef else get_prop v k)"

text \<open>The own entries of an object, each key once (the first, which is the one a
  property read sees).\<close>

fun own_entries :: "(string \<times> jsval) list \<Rightarrow> (string \<times> jsval) list" where
  "own_entries [] = []"
| "own_entries ((k, v) # kvs) = (k, v) # own_entries (filter (\<lambda>e. fst e \<noteq> k) kvs)"

text \<open>\<open>Object.values(v)\<close>.  The page only filters and counts the result, so the order
  in which an object's values come is left as the entries have it.\<close>

fun object_values :: "jsval \<Rightarrow> js_error + jsval list" where
  "object_values JUndef = Inl TypeError"
| "object_values JNull = Inl TypeError"
| "object_values (JObj kvs) = Inr (map snd (own_entries kvs))"
| "object_values (JArr xs) = Inr xs"
| "object_values (JStr s) = Inr (map (\<lambda>c. JStr [c]) s)"
| "object_values _ = Inr []"

section \<open>The state of the table view (GamePage)\<close>

text \<open>One line of \<open>winnerInfo.allWinners\<close>.\<close>

record winner_line =
  name :: jsval
  description :: jsval
  line_winnings :: jsval

text \<open>The object the \<open>game:update\<close> handler builds in its local \<open>winnerInfo\<close>.\<close>

record winner_info =
  playerName :: jsval
  handDescription :: jsval
  handRank :: jsval
  winnings :: jsval
  isCurrentPlayer :: bool
  isTie :: bool
  isAutoWin :: bool
  allWinners :: "winner_line list"

text \<open>One entry of \<open>cardHistory[playerId]\<close>.\<close>

record history_entry =
  entry_id :: string
  timestamp :: string
  gate :: jsval
  originalCard :: jsval
  resultCard :: jsval
  phase :: jsval

text \<open>The \<open>useState\<close> cells of the component.  \<open>winnerInfo\<close> is \<open>null\<close> or an object
  built by the handler; \<open>cardHistory\<close> is an object from player identifier to array.\<close>

record game_page =
  gameState :: jsval
  lobby :: jsval
  error :: jsval
  gatePreview :: jsval
  cardHistory :: "string \<rightharpoonup> history_entry list"
  showWinnerPopup :: bool
  winnerInfo :: "winner_info option"

text \<open>The state of a freshly mounted component.\<close>

definition initial_page :: game_page where
  "initial_page = \<lparr> gameState = JNull, lobby = JNull, error = JNull, gatePreview = JNull,
     cardHistory = Map.empty, showWinnerPopup = False, winnerInfo = None \<rparr>"

text \<open>
  A handler either returns, leaving the state with every update it queued, or throws.
  A state update queued before the exception is still applied, so a thrown error comes
  with the state reached at that point.
\<close>

type_synonym handler_result = "(js_error \<times> game_page) + game_page"

section \<open>The \<open>lobby:update\<close> handler\<close>

definition handle_lobby_update :: "string \<Rightarrow> jsval \<Rightarrow> game_page \<Rightarrow> handler_result" where
  "handle_lobby_update lobbyId lobbyData st =
     (case js_get lobbyData ''lobby_id'' of
        Inl e \<Rightarrow> Inl (e, st)
      | Inr lid \<Rightarrow>
          if strict_eq lid (JStr lobbyId) then Inr (st\<lparr>lobby := lobbyData\<rparr>) else Inr st)"

section \<open>The \<open>game:update\<close> handler\<close>

subsection \<open>The winner popup's data\<close>

text \<open>\<open>players[id]?.name || `Player ${id}`\<close>, the display name of player \<open>id\<close>;
  \<open>players[id]\<close> throws when the snapshot has no \<open>players\<close>.\<close>

definition display_name :: "jsval \<Rightarrow> jsval \<Rightarrow> js_error + jsval" where
  "display_name players pid =
     (case js_get players (js_string pid) of
        Inl e \<Rightarrow> Inl e
      | Inr player \<Rightarrow> Inr (js_or (opt_get player ''name'') (JStr (''Player '' @ js_string pid))))"

text \<open>The auto-win branch; \<open>result\<close> is \<open>payload.result\<close>, not nullish here.\<close>

definition auto_win_info :: "string \<Rightarrow> jsval \<Rightarrow> jsval \<Rightarrow> js_error + winner_info" where
  "auto_win_info playerId state result =
     (let winnerId = get_prop result ''winner'' in
      case display_name (get_prop state ''players'') winnerId of
        Inl e \<Rightarrow> Inl e
      | Inr nm \<Rightarrow>
          Inr \<lparr> playerName = nm,
                handDescription = JStr ''Auto-win (all others folded)'',
                handRank = JNum 0,
                winnings = js_or (get_prop result ''winnings'') (JNum 0),
                isCurrentPlayer = strict_eq winnerId (JStr playerId),
                isTie = False,
                isAutoWin = True,
                allWinners =
                  [\<lparr> name = nm,
                     description = JStr ''Auto-win (all others folded)'',
                     line_winnings = js_or (get_prop result ''winnings'') (JNum 0) \<rparr>] \<rparr>)"

text \<open>\<open>winners.some(w => w.player_id === playerId)\<close>: stops at the first match.\<close>

fun some_won :: "string \<Rightarrow> jsval list \<Rightarrow> js_error + bool" where
  "some_won playerId [] = Inr False"
| "some_won playerId (w # ws) =
     (case js_get w ''player_id'' of
        Inl e \<Rightarrow> Inl e
      | Inr i \<Rightarrow> if strict_eq i (JStr playerId) then Inr True else some_won playerId ws)"

text \<open>\<open>winners.map(w => ({name: ..., description: w.description, winnings: w.winnings}))\<close>.\<close>

fun winner_lines :: "jsval \<Rightarrow> jsval list \<Rightarrow> js_error + winner_line list" where
  "winner_lines players [] = Inr []"
| "winner_lines players (w # ws) =
     (case js_get w ''player_id'' of
        Inl e \<Rightarrow> Inl e
      | Inr i \<Rightarrow>
         (case display_name players i of
            Inl e \<Rightarrow> Inl e
          | Inr nm \<Rightarrow>
             (case winner_lines players ws of
                Inl e \<Rightarrow> Inl e
              | Inr ls \<Rightarrow>
                  Inr (\<lparr> name = nm, description = get_prop w ''description'',
                         line_winnings = get_prop w ''winnings'' \<rparr> # ls))))"

text \<open>The showdown branch; \<open>winners\<close> is \<open>payload.result.winners\<close>, truthy here.  A
  truthy value that is not an array has no \<open>some\<close> method.\<close>

definition showdown_info :: "string \<Rightarrow> jsval \<Rightarrow> jsval \<Rightarrow> js_error + winner_info" where
  "showdown_info playerId state winners =
     (let winner = get_prop winners ''0'' in
      case js_get winner ''player_id'' of
        Inl e \<Rightarrow> Inl e
      | Inr i \<Rightarrow>
         (case display_name (get_prop state ''players'') i of
            Inl e \<Rightarrow> Inl e
          | Inr nm \<Rightarrow>
             (case winners of
                JArr ws \<Rightarrow>
                  (case some_won playerId ws of
                     Inl e \<Rightarrow> Inl e
                   | Inr currentPlayerWon \<Rightarrow>
                      (case winner_lines (get_prop state ''players'') ws of
                         Inl e \<Rightarrow> Inl e
                       | Inr ls \<Rightarrow>
                           Inr \<lparr> playerName = nm,
                                 handDescription = get_prop winner ''description'',
                                 handRank = get_prop winner ''hand_rank'',
                                 winnings = get_prop winner ''winnings'',
                                 isCurrentPlayer = currentPlayerWon,
                                 isTie = (length ws > 1),
                                 isAutoWin = False,
                                 allWinners = ls \<rparr>))
              | _ \<Rightarrow> Inl TypeError)))"

text \<open>The value of the local \<open>winnerInfo\<close> after the two branches, \<open>None\<close> for \<open>null\<close>.\<close>

definition resolve_winner :: "string \<Rightarrow> jsval \<Rightarrow> jsval \<Rightarrow> js_error + winner_info option" where
  "resolve_winner playerId state result =
     (if truthy (opt_get result ''auto_win'') \<and> truthy (opt_get result ''winner'') then
        (case auto_win_info playerId state result of Inl e \<Rightarrow> Inl e | Inr w \<Rightarrow> Inr (Some w))
      else if truthy (opt_get result ''winners'') then
        (case showdown_info playerId state (get_prop result ''winners'') of
           Inl e \<Rightarrow> Inl e | Inr w \<Rightarrow> Inr (Some w))
      else Inr None)"

text \<open>How the popup presents a \<open>winnerInfo\<close>: it tests \<open>isTie\<close>, then \<open>isAutoWin\<close>.\<close>

datatype outcome_variant = TieSplit | AutoWin | ShowdownWin

definition variant :: "winner_info \<Rightarrow> outcome_variant" where
  "variant w = (if isTie w then TieSplit else if isAutoWin w then AutoWin else ShowdownWin)"

text \<open>The two buttons of the popup that hide it (\<open>setShowWinnerPopup(false)\<close>).\<close>

definition dismiss_popup :: "game_page \<Rightarrow> game_page" where
  "dismiss_popup st = st\<lparr>showWinnerPopup := False\<rparr>"

subsection \<open>The card history\<close>

text \<open>
  The updater given to \<open>setCardHistory\<close>.  \<open>now\<close> is \<open>Date.now()\<close> and \<open>clock\<close> the
  formatted local time, both read from the environment.  An absent array for the player
  is created empty; \<open>find\<close> looks for an entry equal in the four fields.
\<close>

definition record_gate ::
  "string \<Rightarrow> int \<Rightarrow> string \<Rightarrow> jsval \<Rightarrow> jsval \<Rightarrow> (string \<rightharpoonup> history_entry list)
     \<Rightarrow> (string \<rightharpoonup> history_entry list)" where
  "record_gate currentPlayerId now clock gateInfo ph prev =
     (let entries = (case prev currentPlayerId of None \<Rightarrow> [] | Some es \<Rightarrow> es);
          transformationKey =
            js_string (get_prop gateInfo ''original_card'') @ ''-'' @
            js_string (get_prop gateInfo ''result_card'') @ ''-'' @
            js_string (get_prop gateInfo ''gate'') @ ''-'' @
            js_string ph @ ''-'' @ show_int now;
          existingEntry =
            List.find (\<lambda>entry.
                strict_eq (originalCard entry) (get_prop gateInfo ''original_card'') \<and>
                strict_eq (resultCard entry) (get_prop gateInfo ''result_card'') \<and>
                strict_eq (gate entry) (get_prop gateInfo ''gate'') \<and>
                strict_eq (phase entry) ph) entries
      in case existingEntry of
           Some _ \<Rightarrow> prev(currentPlayerId \<mapsto> entries)
         | None \<Rightarrow>
             prev(currentPlayerId \<mapsto> entries @
               [\<lparr> entry_id = transformationKey,
                  timestamp = clock,
                  gate = get_prop gateInfo ''gate'',
                  originalCard = js_or (get_prop gateInfo ''original_card'') (JStr ''Unknown''),
                  resultCard = get_prop gateInfo ''result_card'',
                  phase = ph \<rparr>]))"

text \<open>The gate-tracking block of the handler; \<open>state\<close> is not nullish here.\<close>

definition track_gate ::
  "string \<Rightarrow> int \<Rightarrow> string \<Rightarrow> jsval \<Rightarrow> jsval \<Rightarrow> game_page \<Rightarrow> handler_result" where
  "track_gate playerId now clock state result st =
     (if truthy (opt_get result ''gate_applied'') \<and> truthy (opt_get result ''gate_info'') then
        (case js_get (get_prop state ''players'') playerId of
           Inl e \<Rightarrow> Inl (e, st)
         | Inr me \<Rightarrow>
             if truthy me then
               Inr (st\<lparr>cardHistory :=
                      record_gate playerId now clock (get_prop result ''gate_info'')
                        (get_prop state ''phase'') (cardHistory st)\<rparr>)
             else Inr st)
      else Inr st)"

subsection \<open>The handler\<close>

definition handle_game_update ::
  "string \<Rightarrow> int \<Rightarrow> string \<Rightarrow> jsval \<Rightarrow> game_page \<Rightarrow> handler_result" where
  "handle_game_update playerId now clock payload st =
     (case js_get payload ''state'' of
        Inl e \<Rightarrow> Inl (e, st)
      | Inr state \<Rightarrow>
         (let st1 = st\<lparr>gameState := state, gatePreview := JNull\<rparr>;
              result = get_prop payload ''result''
          in case js_get state ''phase'' of
               Inl e \<Rightarrow> Inl (e, st1)
             | Inr ph \<Rightarrow>
                (case (if strict_eq ph (JStr ''complete'')
                       then resolve_winner playerId state result else Inr None) of
                   Inl e \<Rightarrow> Inl (e, st1)
                 | Inr None \<Rightarrow> track_gate playerId now clock state result st1
                 | Inr (Some w) \<Rightarrow>
                     track_gate playerId now clock state result
                       (st1\<lparr>winnerInfo := Some w, showWinnerPopup := True\<rparr>))))"

section \<open>\<open>isBettingRoundComplete\<close>\<close>

text \<open>\<open>xs.filter(f)\<close> and \<open>xs.every(f)\<close> for a callback that may throw; \<open>every\<close>
  stops at the first element the callback rejects.\<close>

fun js_filter :: "(jsval \<Rightarrow> js_error + bool) \<Rightarrow> jsval list \<Rightarrow> js_error + jsval list" where
  "js_filter f [] = Inr []"
| "js_filter f (x # xs) =
     (case f x of
        Inl e \<Rightarrow> Inl e
      | Inr b \<Rightarrow>
         (case js_filter f xs of
            Inl e \<Rightarrow> Inl e
          | Inr ys \<Rightarrow> Inr (if b then x # ys else ys)))"

fun js_every :: "(jsval \<Rightarrow> js_error + bool) \<Rightarrow> jsval list \<Rightarrow> js_error + bool" where
  "js_every f [] = Inr True"
| "js_every f (x # xs) =
     (case f x of
        Inl e \<Rightarrow> Inl e
      | Inr b \<Rightarrow> if b then js_every f xs else Inr False)"

text \<open>\<open>p => p.is_active\<close>\<close>

definition is_active_cb :: "jsval \<Rightarrow> js_error + bool" where
  "is_active_cb p = (case js_get p ''is_active'' of Inl e \<Rightarrow> Inl e | Inr a \<Rightarrow> Inr (truthy a))"

text \<open>\<open>p => !p.has_folded && !p.is_all_in\<close>\<close>

definition contesting_cb :: "jsval \<Rightarrow> js_error + bool" where
  "contesting_cb p =
     (case js_get p ''has_folded'' of
        Inl e \<Rightarrow> Inl e
      | Inr f \<Rightarrow> Inr (\<not> truthy f \<and> \<not> truthy (get_prop p ''is_all_in'')))"

text \<open>\<open>p => p.has_acted\<close>\<close>

definition has_acted_cb :: "jsval \<Rightarrow> js_error + bool" where
  "has_acted_cb p = (case js_get p ''has_acted'' of Inl e \<Rightarrow> Inl e | Inr a \<Rightarrow> Inr (truthy a))"

text \<open>The function reads the component's \<open>gameState\<close>; \<open>activePlayers\<close> is computed
  first and not used afterwards.\<close>

definition isBettingRoundComplete :: "jsval \<Rightarrow> js_error + bool" where
  "isBettingRoundComplete gs =
     (case js_get gs ''players'' of
        Inl e \<Rightarrow> Inl e
      | Inr ps \<Rightarrow>
         (case object_values ps of
            Inl e \<Rightarrow> Inl e
          | Inr pvals \<Rightarrow>
             (case js_filter is_active_cb pvals of
                Inl e \<Rightarrow> Inl e
              | Inr activePlayers \<Rightarrow>
                 (case object_values
                         (js_or (opt_get (get_prop gs ''betting_state'') ''players'') (JObj [])) of
                    Inl e \<Rightarrow> Inl e
                  | Inr bvals \<Rightarrow>
                     (case js_filter contesting_cb bvals of
                        Inl e \<Rightarrow> Inl e
                      | Inr bettingPlayers \<Rightarrow>
                          if length bettingPlayers \<le> 1 then Inr True
                          else js_every has_acted_cb bettingPlayers)))))"

section \<open>The mount effect: join, retry timer, error listener, cleanup\<close>

text \<open>\<open>s.includes(t)\<close> on strings.\<close>

fun str_includes :: "string \<Rightarrow> string \<Rightarrow> bool" where
  "str_includes [] t = (t = [])"
| "str_includes (c # s) t = (prefix t (c # s) \<or> str_includes s t)"

text \<open>
  The test of the timer callback, \<open>!error || !error.includes('already started')\<close>.  A
  truthy \<open>error\<close> that is neither a string nor an array has no \<open>includes\<close> method.
\<close>

definition should_retry :: "jsval \<Rightarrow> js_error + bool" where
  "should_retry err =
     (if \<not> truthy err then Inr True
      else case err of
             JStr s \<Rightarrow> Inr (\<not> str_includes s ''already started'')
           | JArr xs \<Rightarrow> Inr (\<not> list_ex (\<lambda>x. strict_eq x (JStr ''already started'')) xs)
           | _ \<Rightarrow> Inl TypeError)"

text \<open>The \<open>error\<close> listener of the socket.\<close>

definition handle_error :: "jsval \<Rightarrow> game_page \<Rightarrow> handler_result" where
  "handle_error err st =
     (case js_get err ''detail'' of
        Inl e \<Rightarrow> Inl (e, st)
      | Inr detail \<Rightarrow>
          if \<not> strict_eq detail (JStr ''Lobby not found'') then
            (if strict_eq detail (JStr ''Lobby already in game'')
             then Inr (st\<lparr>error :=
                    JStr ''This game has already started. You cannot join an ongoing game.''\<rparr>)
             else Inr (st\<lparr>error := detail\<rparr>))
          else Inr st)"

text \<open>
  The component together with the effect instance that is mounted.  The effect's
  dependencies are \<open>[lobbyId, playerId]\<close>, so its callbacks keep the variables of the render
  in which the effect ran: \<open>effect_error\<close> is the value \<open>error\<close> had in that render, and a
  later \<open>setError\<close> changes \<open>error\<close> of the page but not this captured value.
  \<open>emitted\<close> lists the \<open>join\<close> messages sent, as (lobby_id, player_id).
\<close>

record table_view =
  page :: game_page
  effect_error :: jsval
  retry_armed :: bool
  listening :: bool
  emitted :: "(string \<times> string) list"

definition fresh_view :: table_view where
  "fresh_view = \<lparr> page = initial_page, effect_error = JNull, retry_armed = False,
     listening = False, emitted = [] \<rparr>"

text \<open>
  What happens to a table view.  \<open>Mount\<close> is the run of the effect (the data it loads
  over HTTP arrives later and is not part of this model), \<open>RetryTimer\<close> the expiry of the
  1000 ms timeout, \<open>Cleanup\<close> the function the effect returns; the others are the
  messages of the socket, a \<open>game:update\<close> with the clock readings its handler takes.
\<close>

datatype view_event =
    Mount
  | GameUpdate int string jsval
  | LobbyUpdate jsval
  | SocketError jsval
  | GatePreview jsval
  | RetryTimer
  | Cleanup

text \<open>An exception in a listener or timer callback is reported by the runtime and the
  event loop goes on, with the state the callback had reached.\<close>

definition settle :: "handler_result \<Rightarrow> game_page" where
  "settle r = (case r of Inl (e, st) \<Rightarrow> st | Inr st \<Rightarrow> st)"

fun view_step :: "string \<Rightarrow> string \<Rightarrow> table_view \<Rightarrow> view_event \<Rightarrow> table_view" where
  "view_step lobbyId playerId v Mount =
     v\<lparr> effect_error := error (page v), retry_armed := True, listening := True,
        emitted := emitted v @ [(lobbyId, playerId)] \<rparr>"
| "view_step lobbyId playerId v RetryTimer =
     (if retry_armed v then
        (case should_retry (effect_error v) of
           Inr True \<Rightarrow> v\<lparr> retry_armed := False, emitted := emitted v @ [(lobbyId, playerId)] \<rparr>
         | _ \<Rightarrow> v\<lparr> retry_armed := False \<rparr>)
      else v)"
| "view_step lobbyId playerId v (GameUpdate now clock payload) =
     (if listening v
      then v\<lparr> page := settle (handle_game_update playerId now clock payload (page v)) \<rparr>
      else v)"
| "view_step lobbyId playerId v (LobbyUpdate lobbyData) =
     (if listening v then v\<lparr> page := settle (handle_lobby_update lobbyId lobbyData (page v)) \<rparr>
      else v)"
| "view_step lobbyId playerId v (SocketError err) =
     (if listening v then v\<lparr> page := settle (handle_error err (page v)) \<rparr> else v)"
| "view_step lobbyId playerId v (GatePreview preview) =
     (if listening v then v\<lparr> page := (page v)\<lparr>gatePreview := preview\<rparr> \<rparr> else v)"
| "view_step lobbyId playerId v Cleanup = v\<lparr> retry_armed := False, listening := False \<rparr>"

definition view_run :: "string \<Rightarrow> string \<Rightarrow> table_view \<Rightarrow> view_event list \<Rightarrow> table_view" where
  "view_run lobbyId playerId v evs = foldl (view_step lobbyId playerId) v evs"

section \<open>Names used in the statements\<close>

text \<open>
  The members every object inherits from \<open>Object.prototype\<close>.  A read \<open>players[id]\<close> with
  one of these names as \<open>id\<close> finds the inherited member when \<open>players\<close> has no entry of
  that name.
\<close>

definition inherited_members :: "string list" where
  "inherited_members =
     [''constructor'', ''hasOwnProperty'', ''isPrototypeOf'', ''propertyIsEnumerable'',
      ''toLocaleString'', ''toString'', ''valueOf'', ''__proto__'',
      ''__defineGetter__'', ''__defineSetter__'', ''__lookupGetter__'', ''__lookupSetter__'']"

text \<open>A player identifier as the data model has it: a string, and one that names no
  inherited member, so that \<open>players[id]\<close> is the player's record or \<open>undefined\<close>.\<close>

definition plain_id :: "jsval \<Rightarrow> bool" where
  "plain_id v = (case v of JStr s \<Rightarrow> s \<notin> set inherited_members | _ \<Rightarrow> False)"

text \<open>The name the popup shows for player \<open>pid\<close> of a snapshot that has \<open>players\<close>: the
  \<open>name\<close> of the player record when it has a truthy one, else \<open>Player\<close> followed by the
  identifier.  It is what \<open>display_name\<close> returns when it does not throw.\<close>

definition shown_name :: "jsval \<Rightarrow> jsval \<Rightarrow> jsval" where
  "shown_name players pid =
     (if truthy (opt_get (get_prop players (js_string pid)) ''name'')
      then opt_get (get_prop players (js_string pid)) ''name''
      else JStr (''Player '' @ js_string pid))"

section \<open>The betting round in the words of the specification\<close>

text \<open>
  The players still contesting the pot, among the entries of \<open>betting_state.players\<close>:
  those whose \<open>has_folded\<close> and \<open>is_all_in\<close> are both false (not truthy, for a flag that
  is not a boolean).  The round is settled when at most one player contests, or every
  contesting player has acted.
\<close>

definition contesting_ids :: "(string \<times> jsval) list \<Rightarrow> string set" where
  "contesting_ids entries =
     Set.filter (\<lambda>k. \<not> truthy (get_prop (get_prop (JObj entries) k) ''has_folded'') \<and>
                     \<not> truthy (get_prop (get_prop (JObj entries) k) ''is_all_in''))
       (fst ` set entries)"

definition spec_round_complete :: "(string \<times> jsval) list \<Rightarrow> bool" where
  "spec_round_complete entries =
     (card (contesting_ids entries) \<le> 1 \<or>
      (\<forall>k \<in> contesting_ids entries.
          truthy (get_prop (get_prop (JObj entries) k) ''has_acted'')))"

text \<open>A snapshot without betting players: no \<open>betting_state\<close>, or one whose \<open>players\<close>
  is missing or the empty object.\<close>

definition no_betting_players :: "jsval \<Rightarrow> bool" where
  "no_betting_players gs =
     (nullish (get_prop gs ''betting_state'') \<or>
      nullish (get_prop (get_prop gs ''betting_state'') ''players'') \<or>
      get_prop (get_prop gs ''betting_state'') ''players'' = JObj [])"

section \<open>Concrete deliveries\<close>

text \<open>A lobby broadcast for table \<open>L1\<close>.\<close>

definition lobby_L1 :: jsval where
  "lobby_L1 = JObj [(''lobby_id'', JStr ''L1''), (''name'', JStr ''Friday table''),
                    (''players'', JArr [JStr ''p1'', JStr ''p2'']), (''in_game'', JBool True)]"

text \<open>A showdown won by \<open>p1\<close> alone with a flush, as the viewer \<open>p1\<close> receives it, the
  \<open>winnerInfo\<close> the handler builds from it, and the page after the first delivery.\<close>

definition showdown_delivery :: jsval where
  "showdown_delivery =
     JObj [(''state'', JObj [(''phase'', JStr ''complete''),
                             (''players'', JObj [(''p1'', JObj [(''name'', JStr ''Ann'')])])]),
           (''result'', JObj [(''winners'',
              JArr [JObj [(''player_id'', JStr ''p1''), (''winnings'', JNum 120),
                          (''description'', JStr ''Flush'')]])])]"

definition showdown_outcome :: winner_info where
  "showdown_outcome =
     \<lparr> playerName = JStr ''Ann'', handDescription = JStr ''Flush'', handRank = JUndef,
       winnings = JNum 120, isCurrentPlayer = True, isTie = False, isAutoWin = False,
       allWinners = [\<lparr> name = JStr ''Ann'', description = JStr ''Flush'',
                        line_winnings = JNum 120 \<rparr>] \<rparr>"

definition shown_page :: game_page where
  "shown_page = initial_page\<lparr> gameState := get_prop showdown_delivery ''state'',
      winnerInfo := Some showdown_outcome, showWinnerPopup := True \<rparr>"

text \<open>An auto-win of \<open>p2\<close>, whose player record has no \<open>name\<close>, seen by \<open>p1\<close>.\<close>

definition auto_win_players :: "(string \<times> jsval) list" where
  "auto_win_players = [(''p1'', JObj [(''name'', JStr ''Ann'')]),
                       (''p2'', JObj [(''chips'', JNum 900)])]"

definition auto_win_delivery :: jsval where
  "auto_win_delivery =
     JObj [(''state'', JObj [(''phase'', JStr ''complete''),
                             (''players'', JObj [(''p1'', JObj [(''name'', JStr ''Ann'')]),
                                                 (''p2'', JObj [(''chips'', JNum 900)])])]),
           (''result'', JObj [(''auto_win'', JBool True), (''winner'', JStr ''p2''),
                              (''winnings'', JNum 300)])]"

definition auto_win_outcome :: winner_info where
  "auto_win_outcome =
     \<lparr> playerName = JStr ''Player p2'', handDescription = JStr ''Auto-win (all others folded)'',
       handRank = JNum 0, winnings = JNum 300, isCurrentPlayer = False, isTie = False,
       isAutoWin = True,
       allWinners = [\<lparr> name = JStr ''Player p2'',
                        description = JStr ''Auto-win (all others folded)'',
                        line_winnings = JNum 300 \<rparr>] \<rparr>"

definition auto_win_page :: game_page where
  "auto_win_page = initial_page\<lparr> gameState := get_prop auto_win_delivery ''state'',
      winnerInfo := Some auto_win_outcome, showWinnerPopup := True \<rparr>"

text \<open>A pot split unevenly between \<open>p1\<close> and \<open>p2\<close>.\<close>

definition tie_first :: jsval where
  "tie_first = JObj [(''player_id'', JStr ''p1''), (''winnings'', JNum 80),
                     (''description'', JStr ''Flush''), (''hand_rank'', JNum 6)]"

definition tie_second :: jsval where
  "tie_second = JObj [(''player_id'', JStr ''p2''), (''winnings'', JNum 40),
                      (''description'', JStr ''Flush''), (''hand_rank'', JNum 6)]"

definition tie_players :: "(string \<times> jsval) list" where
  "tie_players = [(''p1'', JObj [(''name'', JStr ''Ann'')]),
                  (''p2'', JObj [(''name'', JStr ''Bo'')])]"

definition tie_delivery :: jsval where
  "tie_delivery =
     JObj [(''state'', JObj [(''phase'', JStr ''complete''),
                             (''players'', JObj [(''p1'', JObj [(''name'', JStr ''Ann'')]),
                                                 (''p2'', JObj [(''name'', JStr ''Bo'')])])]),
           (''result'', JObj [(''winners'', JArr [tie_first, tie_second])])]"

text \<open>A terminal snapshot whose result payload has an empty winners list.\<close>

definition empty_winners_delivery :: jsval where
  "empty_winners_delivery =
     JObj [(''state'', JObj [(''phase'', JStr ''complete''),
                             (''players'', JObj [(''p1'', JObj [(''name'', JStr ''Ann'')])])]),
           (''result'', JObj [(''winners'', JArr [])])]"

text \<open>A terminal snapshot whose result payload carries gate-application info only, the
  entry the handler records for it at time 2001, and the page after the delivery.\<close>

definition final_gate_delivery :: jsval where
  "final_gate_delivery =
     JObj [(''state'', JObj [(''phase'', JStr ''complete''),
                             (''players'', JObj [(''p1'', JObj [(''name'', JStr ''Ann'')])])]),
           (''result'', JObj [(''gate_applied'', JBool True),
                              (''gate_info'', JObj [(''gate'', JStr ''H''),
                                                    (''original_card'', JStr ''KS''),
                                                    (''result_card'', JStr ''QS'')])])]"

definition final_gate_record :: history_entry where
  "final_gate_record = \<lparr> entry_id = ''KS-QS-H-complete-2001'', timestamp = ''20:16:00'',
     gate = JStr ''H'', originalCard = JStr ''KS'', resultCard = JStr ''QS'',
     phase = JStr ''complete'' \<rparr>"

definition final_gate_page :: game_page where
  "final_gate_page = initial_page\<lparr> gameState := get_prop final_gate_delivery ''state'',
     cardHistory := [''p1'' \<mapsto> [final_gate_record]] \<rparr>"

text \<open>A gate application on the flop whose \<open>gate_info\<close> has no \<open>original_card\<close>, the
  entries recorded for it at times 1001 and 1002, and the page of viewer \<open>p1\<close> whose
  history holds the given entries.\<close>

definition gate_delivery :: jsval where
  "gate_delivery =
     JObj [(''state'', JObj [(''phase'', JStr ''flop''),
                             (''players'', JObj [(''p1'', JObj [(''name'', JStr ''Ann'')])])]),
           (''result'', JObj [(''gate_applied'', JBool True),
                              (''gate_info'', JObj [(''gate'', JStr ''X''),
                                                    (''result_card'', JStr ''7D'')])])]"

definition first_record :: history_entry where
  "first_record = \<lparr> entry_id = ''undefined-7D-X-flop-1001'', timestamp = ''20:15:01'',
     gate = JStr ''X'', originalCard = JStr ''Unknown'', resultCard = JStr ''7D'',
     phase = JStr ''flop'' \<rparr>"

definition second_record :: history_entry where
  "second_record = \<lparr> entry_id = ''undefined-7D-X-flop-1002'', timestamp = ''20:15:02'',
     gate = JStr ''X'', originalCard = JStr ''Unknown'', resultCard = JStr ''7D'',
     phase = JStr ''flop'' \<rparr>"

definition flop_page :: "history_entry list \<Rightarrow> game_page" where
  "flop_page records = initial_page\<lparr> gameState := get_prop gate_delivery ''state'',
     cardHistory := [''p1'' \<mapsto> records] \<rparr>"

text \<open>The server's rejection of a join into a running game, and the page showing it.\<close>

definition already_in_game :: jsval where
  "already_in_game = JObj [(''detail'', JStr ''Lobby already in game'')]"

definition rejected_page :: game_page where
  "rejected_page = initial_page\<lparr> error :=
     JStr ''This game has already started. You cannot join an ongoing game.'' \<rparr>"

text \<open>Three seats; \<open>p3\<close> has folded without acting, \<open>p1\<close> and \<open>p2\<close> have acted.\<close>

definition seat_entries :: "(string \<times> jsval) list" where
  "seat_entries =
     [(''p1'', JObj [(''name'', JStr ''Ann''), (''is_active'', JBool True)]),
      (''p2'', JObj [(''name'', JStr ''Bo''), (''is_active'', JBool True)]),
      (''p3'', JObj [(''name'', JStr ''Cy''), (''is_active'', JBool False)])]"

definition betting_entries :: "(string \<times> jsval) list" where
  "betting_entries =
     [(''p1'', JObj [(''has_folded'', JBool False), (''is_all_in'', JBool False),
                     (''has_acted'', JBool True)]),
      (''p2'', JObj [(''has_folded'', JBool False), (''is_all_in'', JBool False),
                     (''has_acted'', JBool True)]),
      (''p3'', JObj [(''has_folded'', JBool True), (''is_all_in'', JBool False),
                     (''has_acted'', JBool False)])]"

definition betting_snapshot :: jsval where
  "betting_snapshot =
     JObj [(''phase'', JStr ''flop''), (''players'', JObj seat_entries),
           (''betting_state'', JObj [(''current_round'', JStr ''flop''),
                                     (''players'', JObj betting_entries)])]"

definition bare_snapshot :: jsval where
  "bare_snapshot = JObj [(''phase'', JStr ''waiting''), (''players'', JObj seat_entries)]"

section \<open>Properties\<close>

subsection \<open>Reading values\<close>

lemma strict_eq_JStr: "strict_eq v (JStr s) = (v = JStr s)"
  by (cases v) simp_all

lemma js_get_Inr: "\<not> nullish v \<Longrightarrow> js_get v k = Inr (get_prop v k)"
  by (simp add: js_get_def)

lemma get_prop_nullish: "nullish v \<Longrightarrow> get_prop v k = JUndef"
  by (cases v) simp_all

lemma not_nullish_if_str: "get_prop v k = JStr s \<Longrightarrow> \<not> nullish v"
  by (cases v) simp_all

lemma not_nullish_if_obj: "get_prop v k = JObj kvs \<Longrightarrow> \<not> nullish v"
  by (cases v) simp_all

lemma not_nullish_if_arr: "get_prop v k = JArr xs \<Longrightarrow> \<not> nullish v"
  by (cases v) simp_all

lemma not_nullish_if_truthy: "truthy (opt_get v k) \<Longrightarrow> \<not> nullish v"
  by (auto simp: opt_get_def)

lemma array_index_0: "array_index ''0'' (Suc n) = Some 0"
  by (simp add: array_index_def upt_rec[of 0] show_nat.simps[of 0] digit_char_def)

lemma get_prop_first: "get_prop (JArr (x # xs)) ''0'' = x"
  by (simp add: array_index_0)

lemma show_int_examples:
  "show_int 1001 = ''1001''" "show_int 1002 = ''1002''" "show_int 2001 = ''2001''"
  by (simp_all add: show_int_def show_nat.simps digit_char_def)

text \<open>The equations that evaluate the handlers on a concrete delivery.\<close>

lemmas eval_defs = handle_game_update_def resolve_winner_def showdown_info_def auto_win_info_def
  display_name_def track_gate_def record_gate_def js_get_def opt_get_def js_or_def Let_def
  array_index_0 settle_def dismiss_popup_def initial_page_def show_int_examples

subsection \<open>Lobby broadcasts\<close>

text \<open>
  Claim C9.  A lobby-update delivery replaces the held lobby snapshot exactly when its
  \<open>lobby_id\<close> is (strictly equal to) the lobby identifier of the table view; a delivery
  with any other \<open>lobby_id\<close> leaves the whole state as it was.  The delivery is a lobby
  snapshot, hence not \<open>null\<close> or \<open>undefined\<close>.
\<close>

theorem lobby_update_only_for_own_lobby:
  assumes "\<not> nullish lobbyData"
  shows "handle_lobby_update lobbyId lobbyData st =
           (if get_prop lobbyData ''lobby_id'' = JStr lobbyId
            then Inr (st\<lparr>lobby := lobbyData\<rparr>) else Inr st)"
  using assms by (simp add: handle_lobby_update_def js_get_Inr strict_eq_JStr)

theorem lobby_update_only_for_own_lobby_witness:
  "\<not> nullish lobby_L1 \<and>
   handle_lobby_update ''L1'' lobby_L1 initial_page = Inr (initial_page\<lparr>lobby := lobby_L1\<rparr>) \<and>
   handle_lobby_update ''L2'' lobby_L1 initial_page = Inr initial_page"
proof -
  have n: "\<not> nullish lobby_L1" by (simp add: lobby_L1_def)
  have own: "get_prop lobby_L1 ''lobby_id'' = JStr ''L1''" by (simp add: lobby_L1_def)
  show ?thesis
    using n lobby_update_only_for_own_lobby[OF n, of "''L1''" initial_page]
      lobby_update_only_for_own_lobby[OF n, of "''L2''" initial_page]
    by (simp add: own)
qed

subsection \<open>What the \<open>game:update\<close> handler leaves behind\<close>

lemma display_name_ok:
  "\<not> nullish players \<Longrightarrow> display_name players i = Inr (shown_name players i)"
  by (simp add: display_name_def shown_name_def js_or_def js_get_Inr)

lemma display_name_Inr_D: "display_name players i = Inr nm \<Longrightarrow> \<not> nullish players"
  by (auto simp: display_name_def js_get_def split: if_splits)

lemma auto_win_info_Inr_D:
  "auto_win_info pid state result = Inr w \<Longrightarrow> \<not> nullish (get_prop state ''players'')"
  by (auto simp: auto_win_info_def Let_def split: sum.splits dest: display_name_Inr_D)

lemma showdown_info_Inr_D:
  "showdown_info pid state winners = Inr w \<Longrightarrow> \<not> nullish (get_prop state ''players'')"
  by (auto simp: showdown_info_def Let_def split: sum.splits dest: display_name_Inr_D)

lemma resolve_winner_Some_D:
  "resolve_winner pid state result = Inr (Some w) \<Longrightarrow> \<not> nullish (get_prop state ''players'')"
  by (auto simp: resolve_winner_def split: if_splits sum.splits
      dest: auto_win_info_Inr_D showdown_info_Inr_D)

lemma track_gate_ok:
  "\<not> nullish (get_prop state ''players'') \<Longrightarrow>
   \<exists>st'. track_gate pid now clock state result st = Inr st' \<and>
         winnerInfo st' = winnerInfo st \<and> showWinnerPopup st' = showWinnerPopup st"
  by (simp add: track_gate_def js_get_Inr)

lemma track_gate_frame:
  "track_gate pid now clock state result st = Inr st' \<Longrightarrow>
   winnerInfo st' = winnerInfo st \<and> showWinnerPopup st' = showWinnerPopup st"
  by (auto simp: track_gate_def split: if_splits sum.splits)

lemma track_gate_throws:
  "track_gate pid now clock state result st = Inl (e, st') \<Longrightarrow> st' = st"
  by (auto simp: track_gate_def split: if_splits sum.splits)

lemma auto_win_info_variant: "auto_win_info pid state result = Inr w \<Longrightarrow> variant w = AutoWin"
  by (auto simp: auto_win_info_def variant_def Let_def split: sum.splits)

lemma showdown_info_variant:
  "showdown_info pid state winners = Inr w \<Longrightarrow> variant w \<noteq> AutoWin"
  by (auto simp: showdown_info_def variant_def Let_def split: sum.splits jsval.splits)

lemma resolve_winner_cases:
  "resolve_winner pid state result = Inr r \<Longrightarrow>
     (if truthy (opt_get result ''auto_win'') \<and> truthy (opt_get result ''winner'')
      then \<exists>w. r = Some w \<and> variant w = AutoWin
      else if truthy (opt_get result ''winners'')
      then \<exists>w. r = Some w \<and> variant w \<noteq> AutoWin
      else r = None)"
  by (auto simp: resolve_winner_def split: if_splits sum.splits
      dest: auto_win_info_variant showdown_info_variant)

text \<open>A terminal delivery whose result payload resolves to an outcome stores it and shows
  the popup, whatever the page held.\<close>

lemma terminal_delivery_stores_outcome:
  assumes ph: "get_prop (get_prop payload ''state'') ''phase'' = JStr ''complete''"
      and rw: "resolve_winner playerId (get_prop payload ''state'') (get_prop payload ''result'')
                 = Inr (Some w)"
  shows "\<exists>st'. handle_game_update playerId now clock payload st = Inr st' \<and>
               winnerInfo st' = Some w \<and> showWinnerPopup st'"
proof -
  let ?state = "get_prop payload ''state''"
  let ?shown = "st\<lparr>gameState := ?state, gatePreview := JNull,
                    winnerInfo := Some w, showWinnerPopup := True\<rparr>"
  from ph have s: "\<not> nullish ?state" by (rule not_nullish_if_str)
  then have p: "\<not> nullish payload" using get_prop_nullish[of payload "''state''"] by auto
  from rw have "\<not> nullish (get_prop ?state ''players'')" by (rule resolve_winner_Some_D)
  from track_gate_ok[OF this, of playerId now clock "get_prop payload ''result''" ?shown]
  obtain st' where
    "track_gate playerId now clock ?state (get_prop payload ''result'') ?shown = Inr st'"
    "winnerInfo st' = Some w" "showWinnerPopup st'" by auto
  then show ?thesis using p s ph rw
    by (simp add: handle_game_update_def js_get_Inr Let_def)
qed

text \<open>What a terminal delivery does to the stored outcome, in every case.\<close>

lemma terminal_delivery_cases:
  assumes ph: "get_prop (get_prop payload ''state'') ''phase'' = JStr ''complete''"
  shows "case handle_game_update playerId now clock payload st of
           Inl (e, st') \<Rightarrow>
             winnerInfo st' = winnerInfo st \<and> showWinnerPopup st' = showWinnerPopup st
         | Inr st' \<Rightarrow>
             (if truthy (opt_get (get_prop payload ''result'') ''auto_win'') \<and>
                 truthy (opt_get (get_prop payload ''result'') ''winner'')
              then \<exists>w. winnerInfo st' = Some w \<and> showWinnerPopup st' \<and> variant w = AutoWin
              else if truthy (opt_get (get_prop payload ''result'') ''winners'')
              then \<exists>w. winnerInfo st' = Some w \<and> showWinnerPopup st' \<and> variant w \<noteq> AutoWin
              else winnerInfo st' = winnerInfo st \<and> showWinnerPopup st' = showWinnerPopup st)"
proof -
  let ?state = "get_prop payload ''state''"
  let ?result = "get_prop payload ''result''"
  let ?st1 = "st\<lparr>gameState := ?state, gatePreview := JNull\<rparr>"
  from ph have s: "\<not> nullish ?state" by (rule not_nullish_if_str)
  then have p: "\<not> nullish payload" using get_prop_nullish[of payload "''state''"] by auto
  show ?thesis
  proof (cases "resolve_winner playerId ?state ?result")
    case (Inl e)
    then show ?thesis using p s ph
      by (simp add: handle_game_update_def js_get_Inr Let_def)
  next
    case (Inr r)
    note rc = resolve_winner_cases[OF Inr]
    show ?thesis
    proof (cases r)
      case None
      then have hu: "handle_game_update playerId now clock payload st =
          track_gate playerId now clock ?state ?result ?st1"
        using p s ph Inr by (simp add: handle_game_update_def js_get_Inr Let_def)
      show ?thesis
      proof (cases "track_gate playerId now clock ?state ?result ?st1")
        case (Inl a)
        then obtain e st' where "a = (e, st')" by (cases a)
        with Inl track_gate_throws[of playerId now clock ?state ?result ?st1 e st'] hu
        show ?thesis by simp
      next
        case (Inr st')
        with track_gate_frame[OF Inr] hu rc None show ?thesis
          by (auto split: if_splits)
      qed
    next
      case (Some w)
      from terminal_delivery_stores_outcome[OF ph, of playerId w now clock st] Inr Some
      obtain st' where "handle_game_update playerId now clock payload st = Inr st'"
        "winnerInfo st' = Some w" "showWinnerPopup st'" by auto
      with rc Some show ?thesis by (simp split: if_splits)
    qed
  qed
qed

lemma auto_win_delivery_result:
  "handle_game_update ''p1'' 0 ''20:15:00'' auto_win_delivery initial_page = Inr auto_win_page"
  by (simp add: eval_defs auto_win_delivery_def auto_win_outcome_def auto_win_page_def)

lemma final_gate_delivery_result:
  "handle_game_update ''p1'' 2001 ''20:16:00'' final_gate_delivery initial_page
     = Inr final_gate_page"
  by (simp add: eval_defs final_gate_delivery_def final_gate_record_def final_gate_page_def)

subsection \<open>One outcome for a terminal delivery\<close>

text \<open>
  Claim C1, as stated, fails in its last part, that a result payload accompanying a
  \<open>complete\<close> phase never yields zero outcomes.  \<open>final_gate_delivery\<close> is a terminal
  snapshot with a result payload (the one of a gate application); the handler records the
  gate, stores no outcome and does not show the popup.
\<close>

theorem terminal_result_without_outcome:
  "get_prop (get_prop final_gate_delivery ''state'') ''phase'' = JStr ''complete'' \<and>
   truthy (get_prop final_gate_delivery ''result'') \<and>
   handle_game_update ''p1'' 2001 ''20:16:00'' final_gate_delivery initial_page
     = Inr final_gate_page \<and>
   winnerInfo final_gate_page = None \<and> \<not> showWinnerPopup final_gate_page"
  using final_gate_delivery_result
  by (simp add: final_gate_delivery_def final_gate_page_def initial_page_def)

text \<open>
  Claim C1, amended.  For every game-update delivery whose snapshot phase is \<open>complete\<close>
  and which the handler processes to its end, the handler stores at most one outcome,
  chosen by priority: an AutoWin outcome when the payload has a truthy \<open>auto_win\<close> flag
  and a truthy \<open>winner\<close>; otherwise an outcome that is not AutoWin (a showdown win or a
  tie) when the payload has a truthy \<open>winners\<close>; otherwise none, the stored outcome and
  the popup flag staying as they were.
\<close>

theorem outcome_by_priority:
  assumes ret: "handle_game_update playerId now clock payload st = Inr st'"
      and ph: "get_prop (get_prop payload ''state'') ''phase'' = JStr ''complete''"
  shows "if truthy (opt_get (get_prop payload ''result'') ''auto_win'') \<and>
            truthy (opt_get (get_prop payload ''result'') ''winner'')
         then \<exists>w. winnerInfo st' = Some w \<and> showWinnerPopup st' \<and> variant w = AutoWin
         else if truthy (opt_get (get_prop payload ''result'') ''winners'')
         then \<exists>w. winnerInfo st' = Some w \<and> showWinnerPopup st' \<and> variant w \<noteq> AutoWin
         else winnerInfo st' = winnerInfo st \<and> showWinnerPopup st' = showWinnerPopup st"
  using terminal_delivery_cases[OF ph, where playerId = playerId and now = now
      and clock = clock and st = st] ret by simp

theorem outcome_by_priority_witness:
  "handle_game_update ''p1'' 0 ''20:15:00'' auto_win_delivery initial_page = Inr auto_win_page \<and>
   get_prop (get_prop auto_win_delivery ''state'') ''phase'' = JStr ''complete'' \<and>
   (\<exists>w. winnerInfo auto_win_page = Some w \<and> showWinnerPopup auto_win_page \<and>
        variant w = AutoWin) \<and>
   handle_game_update ''p1'' 2001 ''20:16:00'' final_gate_delivery initial_page
     = Inr final_gate_page \<and>
   get_prop (get_prop final_gate_delivery ''state'') ''phase'' = JStr ''complete'' \<and>
   winnerInfo final_gate_page = winnerInfo initial_page \<and>
   showWinnerPopup final_gate_page = showWinnerPopup initial_page"
proof -
  have ph1: "get_prop (get_prop auto_win_delivery ''state'') ''phase'' = JStr ''complete''"
    by (simp add: auto_win_delivery_def)
  have ph2: "get_prop (get_prop final_gate_delivery ''state'') ''phase'' = JStr ''complete''"
    by (simp add: final_gate_delivery_def)
  from outcome_by_priority[OF auto_win_delivery_result ph1]
  have a: "\<exists>w. winnerInfo auto_win_page = Some w \<and> showWinnerPopup auto_win_page \<and>
        variant w = AutoWin"
    by (simp add: auto_win_delivery_def opt_get_def)
  from outcome_by_priority[OF final_gate_delivery_result ph2]
  have b: "winnerInfo final_gate_page = winnerInfo initial_page \<and>
     showWinnerPopup final_gate_page = showWinnerPopup initial_page"
    by (simp add: final_gate_delivery_def opt_get_def)
  from a b ph1 ph2 auto_win_delivery_result final_gate_delivery_result show ?thesis by blast
qed

subsection \<open>Repeated terminal deliveries\<close>

text \<open>
  Claim C4, as stated, fails.  The viewer \<open>p1\<close> receives \<open>showdown_delivery\<close>: the popup
  is shown.  The viewer dismisses it, and the same terminal snapshot is delivered again:
  the handler resolves the outcome again and the page is back in the state with the
  popup shown.
\<close>

theorem terminal_redelivery_shows_popup_again:
  "handle_game_update ''p1'' 0 ''20:15:00'' showdown_delivery initial_page = Inr shown_page \<and>
   showWinnerPopup shown_page \<and> \<not> showWinnerPopup (dismiss_popup shown_page) \<and>
   handle_game_update ''p1'' 9000 ''20:15:09'' showdown_delivery (dismiss_popup shown_page)
     = Inr shown_page"
  by (simp add: eval_defs shown_page_def showdown_delivery_def showdown_outcome_def)

text \<open>
  Claim C4, amended.  Outcome resolution happens on every delivery of a terminal
  snapshot: whatever the page held before (a popup already shown, or dismissed), a
  delivery whose phase is \<open>complete\<close> and whose result payload resolves to an outcome
  stores that outcome and shows the popup.
\<close>

theorem resolution_on_every_terminal_delivery:
  assumes "get_prop (get_prop payload ''state'') ''phase'' = JStr ''complete''"
      and "resolve_winner playerId (get_prop payload ''state'') (get_prop payload ''result'')
             = Inr (Some w)"
  shows "\<exists>st'. handle_game_update playerId now clock payload st = Inr st' \<and>
               winnerInfo st' = Some w \<and> showWinnerPopup st'"
  using assms by (rule terminal_delivery_stores_outcome)

theorem resolution_on_every_terminal_delivery_witness:
  "get_prop (get_prop showdown_delivery ''state'') ''phase'' = JStr ''complete'' \<and>
   resolve_winner ''p1'' (get_prop showdown_delivery ''state'')
       (get_prop showdown_delivery ''result'') = Inr (Some showdown_outcome) \<and>
   (\<exists>st'. handle_game_update ''p1'' 9000 ''20:15:09'' showdown_delivery (dismiss_popup shown_page)
             = Inr st' \<and> winnerInfo st' = Some showdown_outcome \<and> showWinnerPopup st')"
proof -
  have ph: "get_prop (get_prop showdown_delivery ''state'') ''phase'' = JStr ''complete''"
    by (simp add: showdown_delivery_def)
  have rw: "resolve_winner ''p1'' (get_prop showdown_delivery ''state'')
       (get_prop showdown_delivery ''result'') = Inr (Some showdown_outcome)"
    by (simp add: showdown_delivery_def showdown_outcome_def eval_defs)
  from resolution_on_every_terminal_delivery[OF ph rw] ph rw show ?thesis by blast
qed

subsection \<open>The auto-win outcome\<close>

text \<open>
  Claim C6, as stated, fails.  On \<open>auto_win_delivery\<close> (winner \<open>p2\<close>, whose player record
  has no name) the outcome's display name is \<open>Player p2\<close>, not the raw identifier \<open>p2\<close>,
  and its description is \<open>Auto-win (all others folded)\<close>, not \<open>all others folded\<close>.
\<close>

theorem auto_win_name_is_prefixed:
  "handle_game_update ''p1'' 0 ''20:15:00'' auto_win_delivery initial_page = Inr auto_win_page \<and>
   winnerInfo auto_win_page = Some auto_win_outcome \<and>
   playerName auto_win_outcome = JStr ''Player p2'' \<and>
   playerName auto_win_outcome \<noteq> JStr ''p2'' \<and>
   handDescription auto_win_outcome = JStr ''Auto-win (all others folded)'' \<and>
   handDescription auto_win_outcome \<noteq> JStr ''all others folded''"
  using auto_win_delivery_result by (simp add: auto_win_page_def auto_win_outcome_def)

text \<open>
  Claim C6, amended.  When a result payload with a truthy \<open>auto_win\<close> flag and a winner
  identifier (a non-empty string naming no inherited object member, as the viewer's
  own identifier is) accompanies a terminal snapshot whose \<open>players\<close> is an object, the
  handler stores an AutoWin outcome
  whose description is fixed to \<open>Auto-win (all others folded)\<close>, whose winnings are the
  payload's \<open>winnings\<close>, or 0 when that is absent (or otherwise falsy), and whose display
  name is the \<open>name\<close> of the winner's player record, or \<open>Player\<close> followed by the winner
  identifier when the record is missing or has no (truthy) name.
\<close>

theorem auto_win_outcome_fields:
  assumes ph: "get_prop (get_prop payload ''state'') ''phase'' = JStr ''complete''"
      and aw: "truthy (opt_get (get_prop payload ''result'') ''auto_win'')"
      and wn: "truthy (opt_get (get_prop payload ''result'') ''winner'')"
      and id: "plain_id (get_prop (get_prop payload ''result'') ''winner'')"
      and vw: "plain_id (JStr playerId)"
      and pl: "get_prop (get_prop payload ''state'') ''players'' = JObj pkvs"
  shows "\<exists>st' w. handle_game_update playerId now clock payload st = Inr st' \<and>
           winnerInfo st' = Some w \<and> showWinnerPopup st' \<and> isAutoWin w \<and> \<not> isTie w \<and>
           handDescription w = JStr ''Auto-win (all others folded)'' \<and>
           winnings w = (if truthy (get_prop (get_prop payload ''result'') ''winnings'')
                         then get_prop (get_prop payload ''result'') ''winnings'' else JNum 0) \<and>
           playerName w = shown_name (JObj pkvs) (get_prop (get_prop payload ''result'') ''winner'')"
proof -
  let ?state = "get_prop payload ''state''"
  let ?result = "get_prop payload ''result''"
  from pl have pn: "\<not> nullish (get_prop ?state ''players'')" by simp
  from aw have r: "\<not> nullish ?result" by (rule not_nullish_if_truthy)
  obtain w where w: "auto_win_info playerId ?state ?result = Inr w"
    using pn by (simp add: auto_win_info_def display_name_ok Let_def)
  then have rw: "resolve_winner playerId ?state ?result = Inr (Some w)"
    using aw wn by (simp add: resolve_winner_def)
  from terminal_delivery_stores_outcome[OF ph rw, of now clock st]
  obtain st' where "handle_game_update playerId now clock payload st = Inr st'"
    "winnerInfo st' = Some w" "showWinnerPopup st'" by auto
  moreover from w pn have "isAutoWin w" "\<not> isTie w"
      "handDescription w = JStr ''Auto-win (all others folded)''"
      "winnings w = js_or (get_prop ?result ''winnings'') (JNum 0)"
      "playerName w = shown_name (get_prop ?state ''players'') (get_prop ?result ''winner'')"
    by (auto simp: auto_win_info_def display_name_ok Let_def)
  ultimately show ?thesis using pl by (auto simp: js_or_def)
qed

theorem auto_win_outcome_fields_witness:
  "get_prop (get_prop auto_win_delivery ''state'') ''phase'' = JStr ''complete'' \<and>
   truthy (opt_get (get_prop auto_win_delivery ''result'') ''auto_win'') \<and>
   truthy (opt_get (get_prop auto_win_delivery ''result'') ''winner'') \<and>
   plain_id (get_prop (get_prop auto_win_delivery ''result'') ''winner'') \<and>
   plain_id (JStr ''p1'') \<and>
   get_prop (get_prop auto_win_delivery ''state'') ''players'' = JObj auto_win_players \<and>
   (\<exists>st' w. handle_game_update ''p1'' 0 ''20:15:00'' auto_win_delivery initial_page = Inr st' \<and>
      winnerInfo st' = Some w \<and> showWinnerPopup st' \<and> isAutoWin w \<and> \<not> isTie w \<and>
      handDescription w = JStr ''Auto-win (all others folded)'' \<and>
      winnings w = JNum 300 \<and> playerName w = JStr ''Player p2'')"
proof -
  have ph: "get_prop (get_prop auto_win_delivery ''state'') ''phase'' = JStr ''complete''"
    and aw: "truthy (opt_get (get_prop auto_win_delivery ''result'') ''auto_win'')"
    and wn: "truthy (opt_get (get_prop auto_win_delivery ''result'') ''winner'')"
    and pl: "get_prop (get_prop auto_win_delivery ''state'') ''players'' = JObj auto_win_players"
    by (simp_all add: auto_win_delivery_def auto_win_players_def opt_get_def)
  have id: "plain_id (get_prop (get_prop auto_win_delivery ''result'') ''winner'')"
    and vw: "plain_id (JStr ''p1'')"
    by (simp_all add: auto_win_delivery_def plain_id_def inherited_members_def)
  have "get_prop (get_prop auto_win_delivery ''result'') ''winnings'' = JNum 300"
    "shown_name (JObj auto_win_players)
       (get_prop (get_prop auto_win_delivery ''result'') ''winner'') = JStr ''Player p2''"
    by (simp_all add: auto_win_delivery_def auto_win_players_def shown_name_def opt_get_def)
  with auto_win_outcome_fields[OF ph aw wn id vw pl, of 0 "''20:15:00''" initial_page]
  have "\<exists>st' w. handle_game_update ''p1'' 0 ''20:15:00'' auto_win_delivery initial_page = Inr st' \<and>
      winnerInfo st' = Some w \<and> showWinnerPopup st' \<and> isAutoWin w \<and> \<not> isTie w \<and>
      handDescription w = JStr ''Auto-win (all others folded)'' \<and>
      winnings w = JNum 300 \<and> playerName w = JStr ''Player p2''"
    by simp
  with ph aw wn id vw pl show ?thesis by blast
qed

subsection \<open>The showdown outcome\<close>

lemma some_won_ok:
  "list_all (\<lambda>x. \<not> nullish x) ws \<Longrightarrow>
   some_won pid ws = Inr (list_ex (\<lambda>x. get_prop x ''player_id'' = JStr pid) ws)"
  by (induction ws) (auto simp: js_get_Inr strict_eq_JStr)

lemma winner_lines_ok:
  "\<not> nullish players \<Longrightarrow> list_all (\<lambda>x. \<not> nullish x) ws \<Longrightarrow>
   winner_lines players ws =
     Inr (map (\<lambda>x. \<lparr> name = shown_name players (get_prop x ''player_id''),
                     description = get_prop x ''description'',
                     line_winnings = get_prop x ''winnings'' \<rparr>) ws)"
  by (induction ws) (auto simp: js_get_Inr display_name_ok)

text \<open>
  Claim C7.  When the result payload of a terminal snapshot carries a non-empty winners
  list and no auto-win, the outcome stored has the first entry as its representative
  (name, description, rank and winnings are those of the first entry), keeps one line
  per entry of the list, in order, each with that winner's own description and
  winnings, has \<open>isTie\<close> true exactly when the list is longer than 1, and has
  \<open>isCurrentPlayer\<close> true exactly when some entry of the list has the viewer's
  identifier.  The input is as the data model has it: the entries of the list are
  winner records (not \<open>null\<close>) whose \<open>player_id\<close> is a player identifier (a string naming
  no inherited object member), the viewer's identifier is one too, and the \<open>players\<close> of
  the snapshot is an object.
\<close>

theorem showdown_outcome_fields:
  assumes ph: "get_prop (get_prop payload ''state'') ''phase'' = JStr ''complete''"
      and na: "\<not> (truthy (opt_get (get_prop payload ''result'') ''auto_win'') \<and>
                  truthy (opt_get (get_prop payload ''result'') ''winner''))"
      and ws: "get_prop (get_prop payload ''result'') ''winners'' = JArr (w0 # rest)"
      and en: "list_all (\<lambda>x. \<not> nullish x) (w0 # rest)"
      and ids: "list_all (\<lambda>x. plain_id (get_prop x ''player_id'')) (w0 # rest)"
      and vw: "plain_id (JStr playerId)"
      and pl: "get_prop (get_prop payload ''state'') ''players'' = JObj pkvs"
  shows "\<exists>st' w. handle_game_update playerId now clock payload st = Inr st' \<and>
           winnerInfo st' = Some w \<and> showWinnerPopup st' \<and> \<not> isAutoWin w \<and>
           playerName w = shown_name (JObj pkvs) (get_prop w0 ''player_id'') \<and>
           handDescription w = get_prop w0 ''description'' \<and>
           handRank w = get_prop w0 ''hand_rank'' \<and>
           winnings w = get_prop w0 ''winnings'' \<and>
           isTie w = (length (w0 # rest) > 1) \<and>
           isCurrentPlayer w =
             list_ex (\<lambda>x. get_prop x ''player_id'' = JStr playerId) (w0 # rest) \<and>
           map name (allWinners w) =
             map (\<lambda>x. shown_name (JObj pkvs) (get_prop x ''player_id'')) (w0 # rest) \<and>
           map description (allWinners w) = map (\<lambda>x. get_prop x ''description'') (w0 # rest) \<and>
           map line_winnings (allWinners w) = map (\<lambda>x. get_prop x ''winnings'') (w0 # rest)"
proof -
  let ?state = "get_prop payload ''state''"
  let ?result = "get_prop payload ''result''"
  let ?w = "\<lparr> playerName = shown_name (JObj pkvs) (get_prop w0 ''player_id''),
       handDescription = get_prop w0 ''description'',
       handRank = get_prop w0 ''hand_rank'',
       winnings = get_prop w0 ''winnings'',
       isCurrentPlayer = list_ex (\<lambda>x. get_prop x ''player_id'' = JStr playerId) (w0 # rest),
       isTie = (length (w0 # rest) > 1),
       isAutoWin = False,
       allWinners = map (\<lambda>x. \<lparr> name = shown_name (JObj pkvs) (get_prop x ''player_id''),
                          description = get_prop x ''description'',
                          line_winnings = get_prop x ''winnings'' \<rparr>) (w0 # rest) \<rparr>"
  have pn: "\<not> nullish (JObj pkvs)" by simp
  from ws have r: "\<not> nullish ?result" by (rule not_nullish_if_arr)
  from en have w0: "\<not> nullish w0" by simp
  have sd: "showdown_info playerId ?state (JArr (w0 # rest)) = Inr ?w"
    unfolding showdown_info_def Let_def get_prop_first pl
    using w0 some_won_ok[OF en, of playerId] winner_lines_ok[OF pn en]
    by (simp add: js_get_Inr display_name_ok)
  have rw: "resolve_winner playerId ?state ?result = Inr (Some ?w)"
    using na r ws sd by (auto simp add: resolve_winner_def opt_get_def)
  from terminal_delivery_stores_outcome[OF ph rw, of now clock st]
  obtain st' where "handle_game_update playerId now clock payload st = Inr st'"
    "winnerInfo st' = Some ?w" "showWinnerPopup st'" by auto
  then show ?thesis by (intro exI[of _ st'] exI[of _ ?w]) (simp add: comp_def)
qed

theorem showdown_outcome_fields_witness:
  "get_prop (get_prop tie_delivery ''state'') ''phase'' = JStr ''complete'' \<and>
   \<not> (truthy (opt_get (get_prop tie_delivery ''result'') ''auto_win'') \<and>
      truthy (opt_get (get_prop tie_delivery ''result'') ''winner'')) \<and>
   get_prop (get_prop tie_delivery ''result'') ''winners'' = JArr (tie_first # [tie_second]) \<and>
   list_all (\<lambda>x. \<not> nullish x) (tie_first # [tie_second]) \<and>
   list_all (\<lambda>x. plain_id (get_prop x ''player_id'')) (tie_first # [tie_second]) \<and>
   plain_id (JStr ''p2'') \<and>
   get_prop (get_prop tie_delivery ''state'') ''players'' = JObj tie_players \<and>
   (\<exists>st' w. handle_game_update ''p2'' 0 ''20:15:00'' tie_delivery initial_page = Inr st' \<and>
      winnerInfo st' = Some w \<and> showWinnerPopup st' \<and> \<not> isAutoWin w \<and>
      playerName w = JStr ''Ann'' \<and> handDescription w = JStr ''Flush'' \<and>
      winnings w = JNum 80 \<and> isTie w \<and> isCurrentPlayer w \<and>
      map name (allWinners w) = [JStr ''Ann'', JStr ''Bo''] \<and>
      map line_winnings (allWinners w) = [JNum 80, JNum 40])"
proof -
  have ph: "get_prop (get_prop tie_delivery ''state'') ''phase'' = JStr ''complete''"
    and na: "\<not> (truthy (opt_get (get_prop tie_delivery ''result'') ''auto_win'') \<and>
      truthy (opt_get (get_prop tie_delivery ''result'') ''winner''))"
    and ws: "get_prop (get_prop tie_delivery ''result'') ''winners''
               = JArr (tie_first # [tie_second])"
    and pl: "get_prop (get_prop tie_delivery ''state'') ''players'' = JObj tie_players"
    by (simp_all add: tie_delivery_def tie_players_def opt_get_def)
  have en: "list_all (\<lambda>x. \<not> nullish x) (tie_first # [tie_second])"
    by (simp add: tie_first_def tie_second_def)
  have ids: "list_all (\<lambda>x. plain_id (get_prop x ''player_id'')) (tie_first # [tie_second])"
    by (simp add: tie_first_def tie_second_def plain_id_def inherited_members_def)
  have vw: "plain_id (JStr ''p2'')"
    by (simp add: plain_id_def inherited_members_def)
  have vals: "get_prop tie_first ''player_id'' = JStr ''p1''"
    "get_prop tie_second ''player_id'' = JStr ''p2''"
    "get_prop tie_first ''description'' = JStr ''Flush''"
    "get_prop tie_first ''winnings'' = JNum 80" "get_prop tie_second ''winnings'' = JNum 40"
    "shown_name (JObj tie_players) (JStr ''p1'') = JStr ''Ann''"
    "shown_name (JObj tie_players) (JStr ''p2'') = JStr ''Bo''"
    by (simp_all add: tie_first_def tie_second_def tie_players_def shown_name_def opt_get_def)
  from showdown_outcome_fields[OF ph na ws en ids vw pl, of 0 "''20:15:00''" initial_page]
  have "\<exists>st' w. handle_game_update ''p2'' 0 ''20:15:00'' tie_delivery initial_page = Inr st' \<and>
      winnerInfo st' = Some w \<and> showWinnerPopup st' \<and> \<not> isAutoWin w \<and>
      playerName w = JStr ''Ann'' \<and> handDescription w = JStr ''Flush'' \<and>
      winnings w = JNum 80 \<and> isTie w \<and> isCurrentPlayer w \<and>
      map name (allWinners w) = [JStr ''Ann'', JStr ''Bo''] \<and>
      map line_winnings (allWinners w) = [JNum 80, JNum 40]"
    by (simp add: vals) (elim exE conjE, intro exI conjI; assumption)
  with ph na ws en ids vw pl show ?thesis by blast
qed

subsection \<open>A payload the handler does not survive\<close>

text \<open>
  Claim C8 says that processing a delivery never throws, an empty winners list included.
  The code does not meet it: on \<open>empty_winners_delivery\<close> the empty array is truthy, the
  showdown branch reads \<open>player_id\<close> of \<open>winners[0]\<close>, which is \<open>undefined\<close>, and the
  handler throws a TypeError after the snapshot was stored.
\<close>

theorem empty_winners_list_throws:
  "handle_game_update ''p1'' 0 ''20:15:00'' empty_winners_delivery initial_page =
     Inl (TypeError, initial_page\<lparr> gameState := get_prop empty_winners_delivery ''state'' \<rparr>)"
  by (simp add: eval_defs empty_winners_delivery_def array_index_def)

subsection \<open>The card history\<close>

text \<open>
  Claim C2 says that no two stored records of a player share the content key
  (original card, result card, gate, phase).  The code does not meet it when the gate
  event has no \<open>original_card\<close>: the record stores \<open>Unknown\<close> in its place, the
  duplicate test compares the stored \<open>Unknown\<close> with the event's \<open>undefined\<close>, and the
  second delivery of \<open>gate_delivery\<close> appends a second record with the same four fields.
\<close>

theorem duplicate_record_without_original_card:
  "handle_game_update ''p1'' 1001 ''20:15:01'' gate_delivery initial_page
     = Inr (flop_page [first_record]) \<and>
   handle_game_update ''p1'' 1002 ''20:15:02'' gate_delivery (flop_page [first_record])
     = Inr (flop_page [first_record, second_record]) \<and>
   (originalCard first_record, resultCard first_record, gate first_record, phase first_record)
     = (originalCard second_record, resultCard second_record, gate second_record,
        phase second_record)"
  by (simp add: eval_defs gate_delivery_def flop_page_def first_record_def second_record_def)

subsection \<open>The retry of the join\<close>

text \<open>
  Claim C5 says that a permanent error observed before the retry timer expires
  suppresses the retry.  The code does not meet it: the timer callback tests the
  \<open>error\<close> of the render in which the effect ran, which is still \<open>null\<close>, not the
  message stored since.  After the mount, the rejection \<open>already_in_game\<close> and the
  expiry of the timer, two joins have been emitted, although the test applied to the
  error the page now holds refuses the retry.
\<close>

theorem retry_sent_after_permanent_error:
  "view_run ''L1'' ''p1'' fresh_view [Mount, SocketError already_in_game, RetryTimer] =
     fresh_view\<lparr> page := rejected_page, listening := True,
                 emitted := [(''L1'', ''p1''), (''L1'', ''p1'')] \<rparr> \<and>
   should_retry (error rejected_page) = Inr False"
  by (simp add: view_run_def fresh_view_def rejected_page_def initial_page_def already_in_game_def
      handle_error_def settle_def should_retry_def js_get_def)

subsection \<open>The betting round\<close>

lemma js_filter_total:
  "list_all (\<lambda>x. f x = Inr (g x)) xs \<Longrightarrow> js_filter f xs = Inr (filter g xs)"
  by (induction xs) auto

lemma js_every_total:
  "list_all (\<lambda>x. f x = Inr (g x)) xs \<Longrightarrow> js_every f xs = Inr (list_all g xs)"
  by (induction xs) auto

lemma own_entries_subset: "set (own_entries kvs) \<subseteq> set kvs"
  by (induction kvs rule: own_entries.induct) auto

lemma own_entries_keys: "fst ` set (own_entries kvs) = fst ` set kvs"
  by (induction kvs rule: own_entries.induct) (auto simp: image_iff)

lemma own_entries_distinct: "distinct (map fst (own_entries kvs))"
proof (induction kvs rule: own_entries.induct)
  case 1 show ?case by simp
next
  case (2 k v kvs)
  have "k \<notin> fst ` set (own_entries (filter (\<lambda>e. fst e \<noteq> k) kvs))"
    unfolding own_entries_keys by auto
  with 2 show ?case by simp
qed

lemma map_of_filter_other: "k' \<noteq> k \<Longrightarrow> map_of (filter (\<lambda>e. fst e \<noteq> k) kvs) k' = map_of kvs k'"
  by (induction kvs) auto

lemma own_entries_map_of: "map_of (own_entries kvs) k' = map_of kvs k'"
  by (induction kvs arbitrary: k' rule: own_entries.induct) (auto simp: map_of_filter_other)

lemma own_entries_lookup:
  "(k, v) \<in> set (own_entries kvs) \<longleftrightarrow> map_of kvs k = Some v"
  using own_entries_distinct[of kvs] own_entries_map_of[of kvs k]
  by (metis map_of_SomeD map_of_is_SomeI)

lemma contesting_ids_entries:
  "contesting_ids kvs =
     fst ` set (filter (\<lambda>e. \<not> truthy (get_prop (snd e) ''has_folded'') \<and>
                            \<not> truthy (get_prop (snd e) ''is_all_in'')) (own_entries kvs))"
  (is "?L = ?R")
proof (intro set_eqI iffI)
  fix k assume "k \<in> ?L"
  then obtain v where kv: "(k, v) \<in> set kvs" and
    c: "\<not> truthy (get_prop (get_prop (JObj kvs) k) ''has_folded'')"
       "\<not> truthy (get_prop (get_prop (JObj kvs) k) ''is_all_in'')"
    by (auto simp: contesting_ids_def)
  from kv obtain v' where m: "map_of kvs k = Some v'"
    by (metis weak_map_of_SomeI option.exhaust map_of_eq_None_iff fst_conv image_eqI)
  then have "(k, v') \<in> set (own_entries kvs)" by (simp add: own_entries_lookup)
  with c m show "k \<in> ?R" by (force simp: image_iff)
next
  fix k assume "k \<in> ?R"
  then obtain v where kv: "(k, v) \<in> set (own_entries kvs)"
    and c: "\<not> truthy (get_prop v ''has_folded'')" "\<not> truthy (get_prop v ''is_all_in'')"
    by auto
  then have m: "map_of kvs k = Some v" by (simp add: own_entries_lookup)
  moreover from kv have "k \<in> fst ` set kvs" using own_entries_subset by force
  ultimately show "k \<in> ?L" using c by (simp add: contesting_ids_def)
qed

lemma contesting_count:
  "card (contesting_ids kvs) =
     length (filter (\<lambda>p. \<not> truthy (get_prop p ''has_folded'') \<and>
                          \<not> truthy (get_prop p ''is_all_in'')) (map snd (own_entries kvs)))"
proof -
  let ?P = "\<lambda>e. \<not> truthy (get_prop (snd e) ''has_folded'') \<and> \<not> truthy (get_prop (snd e) ''is_all_in'')"
  have "distinct (map fst (filter ?P (own_entries kvs)))"
    using own_entries_distinct by (rule distinct_map_filter)
  then have "card (set (map fst (filter ?P (own_entries kvs)))) = length (filter ?P (own_entries kvs))"
    using distinct_card by fastforce
  then show ?thesis
    by (simp add: contesting_ids_entries filter_map comp_def)
qed

lemma contesting_all_acted:
  "list_all (\<lambda>p. truthy (get_prop p ''has_acted''))
     (filter (\<lambda>p. \<not> truthy (get_prop p ''has_folded'') \<and>
                          \<not> truthy (get_prop p ''is_all_in'')) (map snd (own_entries kvs))) =
   (\<forall>k \<in> contesting_ids kvs. truthy (get_prop (get_prop (JObj kvs) k) ''has_acted''))"
  (is "?L = ?R")
proof
  assume l: ?L
  show ?R
  proof
    fix k assume "k \<in> contesting_ids kvs"
    then obtain v where kv: "(k, v) \<in> set (own_entries kvs)"
      and c: "\<not> truthy (get_prop v ''has_folded'')" "\<not> truthy (get_prop v ''is_all_in'')"
      unfolding contesting_ids_entries by auto
    then have "map_of kvs k = Some v" by (simp add: own_entries_lookup)
    moreover from l kv c have "truthy (get_prop v ''has_acted'')"
      by (force simp: list_all_iff)
    ultimately show "truthy (get_prop (get_prop (JObj kvs) k) ''has_acted'')" by simp
  qed
next
  assume r: ?R
  show ?L unfolding list_all_iff
  proof
    fix p assume "p \<in> set (filter (\<lambda>p. \<not> truthy (get_prop p ''has_folded'') \<and>
                          \<not> truthy (get_prop p ''is_all_in'')) (map snd (own_entries kvs)))"
    then obtain k where kv: "(k, p) \<in> set (own_entries kvs)"
      and c: "\<not> truthy (get_prop p ''has_folded'')" "\<not> truthy (get_prop p ''is_all_in'')"
      by auto
    then have m: "map_of kvs k = Some p" by (simp add: own_entries_lookup)
    from kv c have "k \<in> contesting_ids kvs" unfolding contesting_ids_entries by force
    with r m show "truthy (get_prop p ''has_acted'')" by force
  qed
qed


lemma values_not_nullish:
  "list_all (\<lambda>e. \<not> nullish (snd e)) kvs \<Longrightarrow>
   list_all (\<lambda>p. \<not> nullish p) (map snd (own_entries kvs))"
  using own_entries_subset[of kvs] by (auto simp: list_all_iff)

lemma active_filter_returns:
  "list_all (\<lambda>p. \<not> nullish p) ps \<Longrightarrow>
   js_filter is_active_cb ps = Inr (filter (\<lambda>p. truthy (get_prop p ''is_active'')) ps)"
  by (rule js_filter_total) (auto simp: list_all_iff is_active_cb_def js_get_Inr)

lemma contesting_filter_returns:
  "list_all (\<lambda>p. \<not> nullish p) ps \<Longrightarrow>
   js_filter contesting_cb ps =
     Inr (filter (\<lambda>p. \<not> truthy (get_prop p ''has_folded'') \<and>
                        \<not> truthy (get_prop p ''is_all_in'')) ps)"
  by (rule js_filter_total) (auto simp: list_all_iff contesting_cb_def js_get_Inr)

lemma acted_every_returns:
  "list_all (\<lambda>p. \<not> nullish p) ps \<Longrightarrow>
   js_every has_acted_cb ps = Inr (list_all (\<lambda>p. truthy (get_prop p ''has_acted'')) ps)"
  by (rule js_every_total) (auto simp: list_all_iff has_acted_cb_def js_get_Inr)

text \<open>
  Claim C3.  For a snapshot whose \<open>players\<close> and \<open>betting_state.players\<close> are objects of
  player records, \<open>isBettingRoundComplete\<close> returns true if and only if at most one
  player contests the pot (has neither folded nor gone all-in) or every contesting
  player has acted; with at most one contesting player the answer is true whatever the
  \<open>has_acted\<close> flags are.
\<close>

theorem betting_round_complete_iff:
  assumes pl: "get_prop gs ''players'' = JObj pkvs"
      and pv: "list_all (\<lambda>e. \<not> nullish (snd e)) pkvs"
      and bp: "get_prop (get_prop gs ''betting_state'') ''players'' = JObj bkvs"
      and bv: "list_all (\<lambda>e. \<not> nullish (snd e)) bkvs"
  shows "isBettingRoundComplete gs = Inr (spec_round_complete bkvs)"
proof -
  let ?c = "\<lambda>p. \<not> truthy (get_prop p ''has_folded'') \<and> \<not> truthy (get_prop p ''is_all_in'')"
  let ?bs = "map snd (own_entries bkvs)"
  from pl have g: "\<not> nullish gs" by (rule not_nullish_if_obj)
  from bp have b: "\<not> nullish (get_prop gs ''betting_state'')" by (rule not_nullish_if_obj)
  have src: "js_or (opt_get (get_prop gs ''betting_state'') ''players'') (JObj []) = JObj bkvs"
    using b bp by (simp add: js_or_def opt_get_def)
  have act: "js_filter is_active_cb (map snd (own_entries pkvs)) =
      Inr (filter (\<lambda>p. truthy (get_prop p ''is_active'')) (map snd (own_entries pkvs)))"
    using pv by (intro active_filter_returns values_not_nullish)
  have bn: "list_all (\<lambda>p. \<not> nullish p) ?bs" using bv by (rule values_not_nullish)
  then have bn': "list_all (\<lambda>p. \<not> nullish p) (filter ?c ?bs)" by (auto simp: list_all_iff)
  have "isBettingRoundComplete gs =
          (if length (filter ?c ?bs) \<le> 1 then Inr True
           else Inr (list_all (\<lambda>p. truthy (get_prop p ''has_acted'')) (filter ?c ?bs)))"
    unfolding isBettingRoundComplete_def
    using g pl act src contesting_filter_returns[OF bn] acted_every_returns[OF bn']
    by (simp add: js_get_Inr)
  also have "\<dots> = Inr (spec_round_complete bkvs)"
    unfolding spec_round_complete_def contesting_count contesting_all_acted[symmetric]
    by simp
  finally show ?thesis .
qed

theorem betting_round_complete_iff_witness:
  "get_prop betting_snapshot ''players'' = JObj seat_entries \<and>
   list_all (\<lambda>e. \<not> nullish (snd e)) seat_entries \<and>
   get_prop (get_prop betting_snapshot ''betting_state'') ''players'' = JObj betting_entries \<and>
   list_all (\<lambda>e. \<not> nullish (snd e)) betting_entries \<and>
   isBettingRoundComplete betting_snapshot = Inr (spec_round_complete betting_entries) \<and>
   contesting_ids betting_entries = {''p1'', ''p2''} \<and>
   spec_round_complete betting_entries"
proof -
  have pl: "get_prop betting_snapshot ''players'' = JObj seat_entries"
    and bp: "get_prop (get_prop betting_snapshot ''betting_state'') ''players''
               = JObj betting_entries"
    by (simp_all add: betting_snapshot_def)
  have pv: "list_all (\<lambda>e. \<not> nullish (snd e)) seat_entries"
    by (simp add: seat_entries_def)
  have bv: "list_all (\<lambda>e. \<not> nullish (snd e)) betting_entries"
    by (simp add: betting_entries_def)
  have ids: "contesting_ids betting_entries = {''p1'', ''p2''}"
    by (auto simp: contesting_ids_def betting_entries_def)
  have sp: "spec_round_complete betting_entries"
    unfolding spec_round_complete_def ids by (simp add: betting_entries_def)
  from betting_round_complete_iff[OF pl pv bp bv] pl pv bp bv ids sp show ?thesis by blast
qed

text \<open>
  Claim C10.  For a snapshot (its \<open>players\<close> an object of player records) in which
  \<open>betting_state\<close> is absent, or \<open>betting_state.players\<close> is absent or empty,
  \<open>isBettingRoundComplete\<close> returns true.
\<close>

theorem no_betting_players_is_complete:
  assumes pl: "get_prop gs ''players'' = JObj pkvs"
      and pv: "list_all (\<lambda>e. \<not> nullish (snd e)) pkvs"
      and nb: "no_betting_players gs"
  shows "isBettingRoundComplete gs = Inr True"
proof -
  from pl have g: "\<not> nullish gs" by (rule not_nullish_if_obj)
  have act: "js_filter is_active_cb (map snd (own_entries pkvs)) =
      Inr (filter (\<lambda>p. truthy (get_prop p ''is_active'')) (map snd (own_entries pkvs)))"
    using pv by (intro active_filter_returns values_not_nullish)
  have "js_or (opt_get (get_prop gs ''betting_state'') ''players'') (JObj []) = JObj []"
    using nb unfolding no_betting_players_def js_or_def opt_get_def
    by (cases "get_prop (get_prop gs ''betting_state'') ''players''") auto
  then show ?thesis
    unfolding isBettingRoundComplete_def using g pl act by (simp add: js_get_Inr)
qed

theorem no_betting_players_is_complete_witness:
  "get_prop bare_snapshot ''players'' = JObj seat_entries \<and>
   list_all (\<lambda>e. \<not> nullish (snd e)) seat_entries \<and>
   no_betting_players bare_snapshot \<and>
   isBettingRoundComplete bare_snapshot = Inr True"
proof -
  have pl: "get_prop bare_snapshot ''players'' = JObj seat_entries"
    by (simp add: bare_snapshot_def)
  have pv: "list_all (\<lambda>e. \<not> nullish (snd e)) seat_entries"
    by (simp add: seat_entries_def)
  have nb: "no_betting_players bare_snapshot"
    by (simp add: no_betting_players_def bare_snapshot_def)
  from no_betting_players_is_complete[OF pl pv nb] pl pv nb show ?thesis by blast
qed

end
